theory Spec2Isabelle
  imports Complex_Main
begin

section \<open>The goal-tracking velocity controller (goto_controller.py)\<close>

text \<open>
  A shallow embedding of the class \<open>GotoVelocityController\<close> of
  \<open>home_robot_hw/nodes/goto_controller.py\<close>. A finite double is modelled as the real number
  it denotes, and the arithmetic of the heading wrap rounds as binary64 arithmetic does;
  infinities and NaN are outside the model. The object is a record that
  every handler takes and returns; what a handler publishes or replies is returned
  beside the new state.
\<close>

subsection \<open>Planar poses\<close>

text \<open>A planar pose is the numpy array \<open>[x, y, theta]\<close> of shape (3,).\<close>

record xyt =
  xyt_x :: real
  xyt_y :: real
  xyt_t :: real

text \<open>\<open>np.zeros(3)\<close>\<close>

definition zeros3 :: xyt where
  "zeros3 = \<lparr>xyt_x = 0, xyt_y = 0, xyt_t = 0\<rparr>"

subsection \<open>Double-precision arithmetic\<close>

text \<open>
  Rounding to the nearest integer, ties to the even one.
\<close>

definition round_half_even :: "real \<Rightarrow> int" where
  "round_half_even y =
     (let f = \<lfloor>y\<rfloor>; d = y - of_int f
      in if d < 1 / 2 then f else if 1 / 2 < d then f + 1 else if even f then f else f + 1)"

text \<open>
  The spacing of the doubles around \<open>x\<close>: 52 binary places below the leading bit of
  \<open>x\<close>, and \<open>2 ^ - 1074\<close> throughout the subnormal range.
\<close>

definition quantum :: "real \<Rightarrow> real" where
  "quantum x = 2 powi (max \<lfloor>log 2 \<bar>x\<bar>\<rfloor> (- 1022) - 52)"

text \<open>
  The double nearest to \<open>x\<close>, ties to even: the rounding every binary64 operation
  applies to its exact result. Overflow is not modelled; the operations of the heading
  wrap cannot overflow on finite doubles, since \<open>np.pi\<close> is far below half the spacing
  of the largest doubles.
\<close>

definition fl :: "real \<Rightarrow> real" where
  "fl x = (if x = 0 then 0 else quantum x * of_int (round_half_even (x / quantum x)))"

definition float_add :: "real \<Rightarrow> real \<Rightarrow> real" where
  "float_add x y = fl (x + y)"

definition float_sub :: "real \<Rightarrow> real \<Rightarrow> real" where
  "float_sub x y = fl (x - y)"

definition float_mul :: "real \<Rightarrow> real \<Rightarrow> real" where
  "float_mul x y = fl (x * y)"

text \<open>
  C's \<open>fmod\<close>: the remainder of the division truncated towards zero. It has the sign
  of the dividend and is exact.
\<close>

definition c_fmod :: "real \<Rightarrow> real \<Rightarrow> real" where
  "c_fmod a b = a - b * of_int (if 0 \<le> a / b then \<lfloor>a / b\<rfloor> else \<lceil>a / b\<rceil>)"

text \<open>
  The \<open>%\<close> of Python floats and of numpy's float64, which are the same algorithm:
  \<open>mod = fmod(a, b)\<close>; a nonzero \<open>mod\<close> whose sign differs from the divisor's becomes
  \<open>mod + b\<close>, a rounded sum; a zero \<open>mod\<close> becomes a zero with the divisor's sign. The
  only divisor in the controller is \<open>2 * np.pi\<close>, which is not zero.
\<close>

definition float_mod :: "real \<Rightarrow> real \<Rightarrow> real" where
  "float_mod a b =
     (let m = c_fmod a b
      in if m \<noteq> 0 then (if (b < 0) \<noteq> (m < 0) then fl (m + b) else m) else 0)"

text \<open>\<open>np.pi\<close>, the double \<open>0x1.921fb54442d18p+1\<close>.\<close>

definition np_pi :: real where
  "np_pi = 884279719003555 / 2 ^ 48"

text \<open>
  Modelled from the spec: \<open>xyt_global_to_base\<close> of \<open>home_robot.utils.geometry\<close> is
  not among the sources. The spec (4.3, step 2) describes it: the goal expressed in the
  base frame of the feedback pose, that is, positions subtracted and rotated by the
  inverse of the feedback heading, and the heading difference. It returns a fresh array.
  The spec gives the formulas and no rounding, so they are taken over the reals.
\<close>

definition xyt_global_to_base :: "xyt \<Rightarrow> xyt \<Rightarrow> xyt" where
  "xyt_global_to_base XYT current_pose =
     (let dx = xyt_x XYT - xyt_x current_pose;
          dy = xyt_y XYT - xyt_y current_pose;
          th = xyt_t current_pose
      in \<lparr>xyt_x = cos th * dx + sin th * dy,
          xyt_y = - sin th * dx + cos th * dy,
          xyt_t = xyt_t XYT - xyt_t current_pose\<rparr>)"

subsection \<open>Messages\<close>

text \<open>
  \<open>TriggerResponse\<close> and \<open>SetBoolResponse\<close> both carry exactly a success flag and a
  message; \<open>SetBool\<close> requests carry the field \<open>data\<close>; a \<open>Twist\<close> is built by
  \<open>Twist()\<close> with all components zero, of which the controller sets \<open>linear.x\<close> and
  \<open>angular.z\<close>.
\<close>

record response =
  success :: bool
  message :: string

record set_bool =
  data :: bool

record twist =
  linear_x :: real
  angular_z :: real

subsection \<open>The 3-D pose primitives\<close>

text \<open>
  The 3-D pose algebra (\<open>sp.SE3\<close>, \<open>matrix_from_pose_msg\<close>, \<open>sophus2xyt\<close>,
  \<open>xyt2sophus\<close>) is not among the sources; the handlers take it as a parameter.
  \<open>'m\<close> is a \<open>geometry_msgs/Pose\<close> message, \<open>'p\<close> an \<open>SE3\<close> value and \<open>'v\<close> the
  4x4 matrix handed to the visualizer.
\<close>

record ('m, 'p, 'v) pose_lib =
  se3_of_msg :: "'m \<Rightarrow> 'p"
  sophus2xyt :: "'p \<Rightarrow> xyt"
  xyt2sophus :: "xyt \<Rightarrow> 'p"
  se3_mul :: "'p \<Rightarrow> 'p \<Rightarrow> 'p"
  se3_inverse :: "'p \<Rightarrow> 'p"
  se3_matrix :: "'p \<Rightarrow> 'v"

subsection \<open>Controller state\<close>

text \<open>
  The fields of \<open>__init__\<close>. \<open>control\<close> holds the state of the velocity control law
  object, of an arbitrary type \<open>'c\<close>. The two publishers have no state of their own:
  what is published is returned by the function that publishes.
\<close>

record 'c controller =
  hz :: real
  odom_only :: bool
  control :: 'c
  xyt_loc :: xyt
  xyt_loc_odom :: xyt
  xyt_goal :: "xyt option"
  active :: bool
  track_yaw :: bool

text \<open>
  \<open>__init__(hz, odom_only_feedback)\<close>; \<open>new_control\<close> stands for the constructor
  \<open>DDVelocityControlNoplan\<close>.
\<close>

definition init :: "(real \<Rightarrow> 'c) \<Rightarrow> real \<Rightarrow> bool \<Rightarrow> 'c controller" where
  "init new_control hz0 odom_only_feedback =
     \<lparr>hz = hz0,
      odom_only = odom_only_feedback,
      control = new_control hz0,
      xyt_loc = zeros3,
      xyt_loc_odom = zeros3,
      xyt_goal = None,
      active = False,
      track_yaw = True\<rparr>"

subsection \<open>Input handlers\<close>

text \<open>The two pose callbacks receive the \<open>Pose\<close> inside the stamped message.\<close>

definition pose_update_callback ::
  "('m, 'p, 'v) pose_lib \<Rightarrow> 'm \<Rightarrow> 'c controller \<Rightarrow> 'c controller" where
  "pose_update_callback L msg s =
     (let pose_sp = se3_of_msg L msg
      in s\<lparr>xyt_loc := sophus2xyt L pose_sp\<rparr>)"

definition odom_update_callback ::
  "('m, 'p, 'v) pose_lib \<Rightarrow> 'm \<Rightarrow> 'c controller \<Rightarrow> 'c controller" where
  "odom_update_callback L msg s =
     (let pose_sp = se3_of_msg L msg
      in s\<lparr>xyt_loc_odom := sophus2xyt L pose_sp\<rparr>)"

text \<open>
  The goal callback stores the goal and then calls the visualizer with the matrix of
  \<open>xyt2sophus(xyt_loc) * xyt2sophus(xyt_loc_odom).inverse() * pose_goal\<close>; the second
  component is that matrix.
\<close>

definition goal_update_callback ::
  "('m, 'p, 'v) pose_lib \<Rightarrow> 'm \<Rightarrow> 'c controller \<Rightarrow> 'c controller \<times> 'v" where
  "goal_update_callback L msg s =
     (let pose_sp = se3_of_msg L msg;
          pose_goal = pose_sp;
          s' = s\<lparr>xyt_goal := Some (sophus2xyt L pose_goal)\<rparr>
      in (s',
          se3_matrix L
            (se3_mul L
               (se3_mul L (xyt2sophus L (xyt_loc s'))
                  (se3_inverse L (xyt2sophus L (xyt_loc_odom s'))))
               pose_goal)))"

definition enable_service :: "'r \<Rightarrow> 'c controller \<Rightarrow> 'c controller \<times> response" where
  "enable_service request s =
     (s\<lparr>active := True\<rparr>,
      \<lparr>success = True, message = ''Goto controller is now RUNNING''\<rparr>)"

definition disable_service :: "'r \<Rightarrow> 'c controller \<Rightarrow> 'c controller \<times> response" where
  "disable_service request s =
     (s\<lparr>active := False\<rparr>,
      \<lparr>success = True, message = ''Goto controller is now STOPPED''\<rparr>)"

definition set_yaw_tracking_service ::
  "set_bool \<Rightarrow> 'c controller \<Rightarrow> 'c controller \<times> response" where
  "set_yaw_tracking_service request s =
     (let s' = s\<lparr>track_yaw := data request\<rparr>;
          status_str = (if track_yaw s' then ''ON'' else ''OFF'')
      in (s', \<lparr>success = True, message = ''Yaw tracking is now '' @ status_str\<rparr>))"

subsection \<open>Error computation and the control loop\<close>

text \<open>
  \<open>_compute_error_pose\<close>. \<open>G\<close> is the helper \<open>xyt_global_to_base\<close>. With no goal the
  helper is handed \<open>None\<close>; the result \<open>None\<close> stands for that failure (the control loop
  never calls it so). The wrap is \<open>(xyt_err[2] + np.pi) % (2 * np.pi) - np.pi\<close>, each
  operation on doubles.
\<close>

definition compute_error_pose ::
  "(xyt \<Rightarrow> xyt \<Rightarrow> xyt) \<Rightarrow> 'c controller \<Rightarrow> xyt option" where
  "compute_error_pose G s =
     (let xyt_loc' = (if odom_only s then xyt_loc_odom s else xyt_loc s)
      in case xyt_goal s of
           None \<Rightarrow> None
         | Some goal \<Rightarrow>
             (let xyt_err = G goal xyt_loc'
              in if \<not> track_yaw s
                 then Some (xyt_err\<lparr>xyt_t := 0\<rparr>)
                 else Some (xyt_err\<lparr>xyt_t :=
                        float_sub
                          (float_mod (float_add (xyt_t xyt_err) np_pi) (float_mul 2 np_pi))
                          np_pi\<rparr>)))"

text \<open>\<open>_set_velocity\<close>: the \<open>Twist\<close> that is published.\<close>

definition set_velocity :: "real \<Rightarrow> real \<Rightarrow> twist" where
  "set_velocity v_m w_r = \<lparr>linear_x = v_m, angular_z = w_r\<rparr>"

text \<open>
  One iteration of the loop of \<open>_run_control_loop\<close>. \<open>ctl\<close> is the call
  \<open>self.control(xyt_err)\<close> of the control law object: from its state and the error to
  the command pair and its new state. The list holds what the iteration published on
  \<open>stretch/cmd_vel\<close>.
\<close>

definition control_loop_body ::
  "(xyt \<Rightarrow> xyt \<Rightarrow> xyt) \<Rightarrow> ('c \<Rightarrow> xyt \<Rightarrow> (real \<times> real) \<times> 'c) \<Rightarrow>
   'c controller \<Rightarrow> 'c controller \<times> twist list" where
  "control_loop_body G ctl s =
     (if active s \<and> xyt_goal s \<noteq> None then
        (case compute_error_pose G s of
           None \<Rightarrow> (s, [])
         | Some xyt_err \<Rightarrow>
             (case ctl (control s) xyt_err of
                ((v_cmd, w_cmd), c') \<Rightarrow> (s\<lparr>control := c'\<rparr>, [set_velocity v_cmd w_cmd])))
      else (s, []))"

text \<open>
  \<open>_run_control_loop\<close> with no handler running in between: \<open>n\<close> is the number of
  times \<open>rospy.is_shutdown()\<close> answers False before it answers True.
\<close>

fun run_control_loop ::
  "(xyt \<Rightarrow> xyt \<Rightarrow> xyt) \<Rightarrow> ('c \<Rightarrow> xyt \<Rightarrow> (real \<times> real) \<times> 'c) \<Rightarrow>
   nat \<Rightarrow> 'c controller \<Rightarrow> 'c controller \<times> twist list" where
  "run_control_loop G ctl 0 s = (s, [])"
| "run_control_loop G ctl (Suc n) s =
     (case control_loop_body G ctl s of
        (s', out) \<Rightarrow>
          (case run_control_loop G ctl n s' of
             (s'', outs) \<Rightarrow> (s'', out @ outs)))"

subsection \<open>The running node\<close>

text \<open>
  \<open>main\<close> registers the three subscribers and the three services and then runs the
  control loop; from then on the node's behaviour is a sequence of handler calls and loop
  iterations. An event is one of them, taken as a whole; what the event sends out is
  collected in order.
\<close>

datatype 'm event =
    PoseMsg 'm
  | OdomMsg 'm
  | GoalMsg 'm
  | EnableReq
  | DisableReq
  | SetYawTrackingReq set_bool
  | LoopIteration

datatype 'v emitted =
    Reply response
  | CmdVel twist
  | GoalViz 'v

definition dispatch ::
  "('m, 'p, 'v) pose_lib \<Rightarrow> (xyt \<Rightarrow> xyt \<Rightarrow> xyt) \<Rightarrow> ('c \<Rightarrow> xyt \<Rightarrow> (real \<times> real) \<times> 'c) \<Rightarrow>
   'm event \<Rightarrow> 'c controller \<Rightarrow> 'c controller \<times> 'v emitted list" where
  "dispatch L G ctl e s =
     (case e of
        PoseMsg msg \<Rightarrow> (pose_update_callback L msg s, [])
      | OdomMsg msg \<Rightarrow> (odom_update_callback L msg s, [])
      | GoalMsg msg \<Rightarrow>
          (case goal_update_callback L msg s of (s', m) \<Rightarrow> (s', [GoalViz m]))
      | EnableReq \<Rightarrow> (case enable_service () s of (s', r) \<Rightarrow> (s', [Reply r]))
      | DisableReq \<Rightarrow> (case disable_service () s of (s', r) \<Rightarrow> (s', [Reply r]))
      | SetYawTrackingReq req \<Rightarrow>
          (case set_yaw_tracking_service req s of (s', r) \<Rightarrow> (s', [Reply r]))
      | LoopIteration \<Rightarrow>
          (case control_loop_body G ctl s of (s', cmds) \<Rightarrow> (s', map CmdVel cmds)))"

fun run_events ::
  "('m, 'p, 'v) pose_lib \<Rightarrow> (xyt \<Rightarrow> xyt \<Rightarrow> xyt) \<Rightarrow> ('c \<Rightarrow> xyt \<Rightarrow> (real \<times> real) \<times> 'c) \<Rightarrow>
   'm event list \<Rightarrow> 'c controller \<Rightarrow> 'c controller \<times> 'v emitted list" where
  "run_events L G ctl [] s = (s, [])"
| "run_events L G ctl (e # es) s =
     (case dispatch L G ctl e s of
        (s', out) \<Rightarrow>
          (case run_events L G ctl es s' of
             (s'', outs) \<Rightarrow> (s'', out @ outs)))"

subsection \<open>Sample parameters\<close>

text \<open>
  Concrete values for the parameters, used to instantiate the results below: a planar
  rigid-motion algebra in place of the 3-D one (a message and a matrix are both the
  planar pose itself), and a proportional control law without state.
\<close>

definition planar_mul :: "xyt \<Rightarrow> xyt \<Rightarrow> xyt" where
  "planar_mul a b =
     \<lparr>xyt_x = xyt_x a + cos (xyt_t a) * xyt_x b - sin (xyt_t a) * xyt_y b,
      xyt_y = xyt_y a + sin (xyt_t a) * xyt_x b + cos (xyt_t a) * xyt_y b,
      xyt_t = xyt_t a + xyt_t b\<rparr>"

definition planar_inverse :: "xyt \<Rightarrow> xyt" where
  "planar_inverse a =
     \<lparr>xyt_x = - (cos (xyt_t a) * xyt_x a + sin (xyt_t a) * xyt_y a),
      xyt_y = sin (xyt_t a) * xyt_x a - cos (xyt_t a) * xyt_y a,
      xyt_t = - xyt_t a\<rparr>"

definition planar_lib :: "(xyt, xyt, xyt) pose_lib" where
  "planar_lib =
     \<lparr>se3_of_msg = id, sophus2xyt = id, xyt2sophus = id,
      se3_mul = planar_mul, se3_inverse = planar_inverse, se3_matrix = id\<rparr>"

definition p_control :: "unit \<Rightarrow> xyt \<Rightarrow> (real \<times> real) \<times> unit" where
  "p_control c e = ((xyt_x e, xyt_t e), c)"

definition new_p_control :: "real \<Rightarrow> unit" where
  "new_p_control h = ()"

definition pose :: "real \<Rightarrow> real \<Rightarrow> real \<Rightarrow> xyt" where
  "pose a b c = \<lparr>xyt_x = a, xyt_y = b, xyt_t = c\<rparr>"

text \<open>Sample controller states and a sample run, built on the constructor.\<close>

definition idle_state :: "unit controller" where
  "idle_state = init new_p_control 20 True"

definition goal_only_state :: "unit controller" where
  "goal_only_state = (init new_p_control 20 True)\<lparr>xyt_goal := Some (pose 1 0 0)\<rparr>"

definition tracking_state :: "unit controller" where
  "tracking_state =
     (init new_p_control 20 True)\<lparr>xyt_goal := Some (pose 1 0 0), active := True\<rparr>"

definition loc_feedback_state :: "unit controller" where
  "loc_feedback_state =
     (init new_p_control 20 False)
       \<lparr>xyt_loc := pose 1 0 0, xyt_loc_odom := pose 5 5 0, xyt_goal := Some (pose 1 0 0)\<rparr>"

definition yaw_off_state :: "unit controller" where
  "yaw_off_state =
     (init new_p_control 20 True)
       \<lparr>xyt_loc_odom := pose 0 0 1, xyt_goal := Some (pose 0 0 3), track_yaw := False\<rparr>"

definition half_turn_state :: "unit controller" where
  "half_turn_state = (init new_p_control 20 True)\<lparr>xyt_goal := Some (pose 0 0 np_pi)\<rparr>"

definition quarter_turn_state :: "unit controller" where
  "quarter_turn_state =
     (init new_p_control 20 True)
       \<lparr>xyt_loc_odom := pose 0 0 (np_pi / 2), xyt_goal := Some (pose 0 0 0)\<rparr>"

definition upper_end_state :: "unit controller" where
  "upper_end_state =
     (init new_p_control 20 True)
       \<lparr>xyt_loc_odom := pose 0 0 (1 / 2 ^ 51), xyt_goal := Some (pose 0 0 (- np_pi))\<rparr>"

definition sample_events :: "xyt event list" where
  "sample_events =
     [PoseMsg (pose 2 2 0), GoalMsg (pose 1 0 0), EnableReq, LoopIteration,
      SetYawTrackingReq \<lparr>data = False\<rparr>, OdomMsg (pose 0 1 0), LoopIteration, DisableReq]"

section \<open>Auxiliary facts\<close>

subsection \<open>Rounding\<close>

text \<open>
  Rounding fixes the integers, keeps the order against an integer, and is odd; so
  \<open>fl\<close> fixes every point of its own grid, keeps the sign, and never carries a value
  across a double that bounds it.
\<close>

lemma rhe_of_int: "round_half_even (of_int n) = n"
  by (simp add: round_half_even_def)

lemma rhe_le: "y \<le> of_int N \<Longrightarrow> round_half_even y \<le> N"
proof -
  assume a: "y \<le> of_int N"
  show ?thesis
  proof (cases "y = of_int N")
    case True
    then show ?thesis by (simp add: rhe_of_int)
  next
    case False
    with a have "y < of_int N" by simp
    then have "\<lfloor>y\<rfloor> < N" by (simp add: floor_less_iff)
    then show ?thesis by (simp add: round_half_even_def Let_def)
  qed
qed

lemma rhe_ge: "of_int N \<le> y \<Longrightarrow> N \<le> round_half_even y"
proof -
  assume "of_int N \<le> y"
  then have "N \<le> \<lfloor>y\<rfloor>" by (simp add: le_floor_iff)
  then show ?thesis by (simp add: round_half_even_def Let_def)
qed

lemma rhe_minus: "round_half_even (- y) = - round_half_even y"
proof (cases "y = of_int \<lfloor>y\<rfloor>")
  case True
  then have "round_half_even y = \<lfloor>y\<rfloor>" by (metis rhe_of_int)
  moreover from True have "- y = of_int (- \<lfloor>y\<rfloor>)" by simp
  then have "round_half_even (- y) = - \<lfloor>y\<rfloor>" by (metis rhe_of_int)
  ultimately show ?thesis by simp
next
  case False
  have lt: "of_int \<lfloor>y\<rfloor> < y"
    by (metis False of_int_floor_le order_less_le)
  have f: "\<lfloor>- y\<rfloor> = - \<lfloor>y\<rfloor> - 1" using lt by linarith
  have d: "- y - of_int \<lfloor>- y\<rfloor> = 1 - (y - of_int \<lfloor>y\<rfloor>)" by (simp add: f)
  show ?thesis
    unfolding round_half_even_def Let_def d
    by (auto simp: f)
qed

lemma quantum_pos: "0 < quantum x"
  by (simp add: quantum_def)

lemma quantum_minus: "quantum (- x) = quantum x"
  by (simp add: quantum_def)

lemma fl_minus: "fl (- x) = - fl x"
  by (simp add: fl_def quantum_minus rhe_minus)

lemma fl_nonneg: "0 \<le> x \<Longrightarrow> 0 \<le> fl x"
proof -
  assume "0 \<le> x"
  then have "of_int 0 \<le> x / quantum x" using quantum_pos [of x] by simp
  then have "0 \<le> round_half_even (x / quantum x)" by (rule rhe_ge)
  then show ?thesis using quantum_pos [of x] by (simp add: fl_def)
qed

lemma fl_exact: "x = quantum x * of_int N \<Longrightarrow> fl x = x"
proof -
  assume a: "x = quantum x * of_int N"
  then have "x / quantum x = of_int N" using quantum_pos [of x]
    by (metis less_irrefl nonzero_mult_div_cancel_left)
  then show ?thesis using a by (simp add: fl_def rhe_of_int)
qed

lemma quantum_ratio:
  assumes "0 < \<bar>x\<bar>" "\<bar>x\<bar> \<le> \<bar>c\<bar>"
  shows "\<exists>n::nat. quantum c = quantum x * 2 ^ n"
proof -
  let ?ex = "max \<lfloor>log 2 \<bar>x\<bar>\<rfloor> (- 1022)"
  let ?ec = "max \<lfloor>log 2 \<bar>c\<bar>\<rfloor> (- 1022)"
  from assms have "log 2 \<bar>x\<bar> \<le> log 2 \<bar>c\<bar>" by simp
  then have "\<lfloor>log 2 \<bar>x\<bar>\<rfloor> \<le> \<lfloor>log 2 \<bar>c\<bar>\<rfloor>" by (rule floor_mono)
  then have le: "?ex \<le> ?ec" by simp
  have "quantum c = 2 powi ((?ex - 52) + (?ec - ?ex))" by (simp add: quantum_def)
  also have "\<dots> = 2 powi (?ex - 52) * 2 powi (?ec - ?ex)"
    by (rule power_int_add) simp
  also have "2 powi (?ec - ?ex) = (2::real) ^ nat (?ec - ?ex)"
    using le by (simp add: power_int_def)
  finally show ?thesis by (auto simp: quantum_def)
qed

lemma fl_le:
  assumes x: "0 < x" "x \<le> c" and c: "c = quantum c * of_int N"
  shows "fl x \<le> c"
proof -
  from x have "0 < \<bar>x\<bar>" "\<bar>x\<bar> \<le> \<bar>c\<bar>" by simp_all
  then obtain n :: nat where n: "quantum c = quantum x * 2 ^ n"
    using quantum_ratio by blast
  have q: "0 < quantum x" by (rule quantum_pos)
  from c n have c': "c = quantum x * of_int (2 ^ n * N)" by simp
  then have "c / quantum x = of_int (2 ^ n * N)" using q
    by (metis less_irrefl nonzero_mult_div_cancel_left)
  moreover from x q have "x / quantum x \<le> c / quantum x" by (simp add: divide_right_mono)
  ultimately have "round_half_even (x / quantum x) \<le> 2 ^ n * N"
    by (intro rhe_le) simp
  then have "of_int (round_half_even (x / quantum x)) \<le> (of_int (2 ^ n * N) :: real)"
    by (simp only: of_int_le_iff)
  then have "quantum x * of_int (round_half_even (x / quantum x)) \<le> quantum x * of_int (2 ^ n * N)"
    using q by (intro mult_left_mono) simp_all
  with c' x show ?thesis by (simp add: fl_def)
qed

lemma c_fmod_bounds:
  assumes b: "0 < b"
  shows "- b < c_fmod a b" and "c_fmod a b < b"
proof -
  have ab: "b * (a / b) = a" using b by simp
  show "- b < c_fmod a b"
  proof (cases "0 \<le> a / b")
    case True
    have "of_int \<lfloor>a / b\<rfloor> \<le> a / b" by linarith
    with b have "b * of_int \<lfloor>a / b\<rfloor> \<le> b * (a / b)" by (intro mult_left_mono) simp_all
    with ab True b show ?thesis by (simp add: c_fmod_def)
  next
    case False
    have "of_int \<lceil>a / b\<rceil> < a / b + 1" by linarith
    with b have "b * of_int \<lceil>a / b\<rceil> < b * (a / b + 1)" by (intro mult_strict_left_mono) simp_all
    with ab False b show ?thesis by (simp add: c_fmod_def algebra_simps)
  qed
  show "c_fmod a b < b"
  proof (cases "0 \<le> a / b")
    case True
    have "a / b < of_int \<lfloor>a / b\<rfloor> + 1" by linarith
    with b have "b * (a / b) < b * (of_int \<lfloor>a / b\<rfloor> + 1)" by (intro mult_strict_left_mono) simp_all
    with ab True b show ?thesis by (simp add: c_fmod_def algebra_simps)
  next
    case False
    have "a / b \<le> of_int \<lceil>a / b\<rceil>" by linarith
    with b have "b * (a / b) \<le> b * of_int \<lceil>a / b\<rceil>" by (intro mult_left_mono) simp_all
    with ab False b show ?thesis by (simp add: c_fmod_def)
  qed
qed

lemma float_mod_bounds:
  assumes b: "0 < b" and r: "b = quantum b * of_int N"
  shows "0 \<le> float_mod a b" and "float_mod a b \<le> b"
proof -
  let ?m = "c_fmod a b"
  from c_fmod_bounds [OF b, of a] have m: "- b < ?m" "?m < b" by simp_all
  show "0 \<le> float_mod a b"
  proof (cases "?m < 0")
    case True
    with m have "0 \<le> ?m + b" by simp
    then have "0 \<le> fl (?m + b)" by (rule fl_nonneg)
    with True b show ?thesis by (simp add: float_mod_def Let_def)
  next
    case False
    with b show ?thesis by (simp add: float_mod_def Let_def)
  qed
  show "float_mod a b \<le> b"
  proof (cases "?m < 0")
    case True
    with m have "0 < ?m + b" "?m + b \<le> b" by simp_all
    then have "fl (?m + b) \<le> b" using r by (rule fl_le)
    with True b show ?thesis by (simp add: float_mod_def Let_def)
  next
    case False
    with b m show ?thesis by (simp add: float_mod_def Let_def)
  qed
qed

subsection \<open>The constant and the wrap\<close>

text \<open>
  \<open>np.pi\<close>, its half and its double are doubles, so \<open>2 * np.pi\<close> is exact. The float
  remainder by a positive double \<open>b\<close> lies in the closed interval \<open>[0, b]\<close>: the
  rounded sum \<open>mod + b\<close> can be \<open>b\<close> itself.
\<close>

lemma quantum_eqI:
  assumes "2 powi k \<le> \<bar>x\<bar>" "\<bar>x\<bar> < 2 powi (k + 1)" "- 1022 \<le> k"
  shows "quantum x = 2 powi (k - 52)"
proof -
  have "(0::real) < 2 powi k" by simp
  with assms(1) have pos: "0 < \<bar>x\<bar>" by linarith
  have "2 powr real_of_int k \<le> \<bar>x\<bar>"
    using assms(1) by (simp add: powr_real_of_int')
  moreover have "\<bar>x\<bar> < 2 powr (real_of_int k + 1)"
  proof -
    have "(2::real) powr real_of_int (k + 1) = 2 powi (k + 1)"
      by (rule powr_real_of_int') simp_all
    with assms(2) show ?thesis by simp
  qed
  ultimately have "\<lfloor>log 2 \<bar>x\<bar>\<rfloor> = k"
    using pos by (simp add: floor_log_eq_powr_iff)
  with assms(3) show ?thesis by (simp add: quantum_def)
qed

lemma fl_abs_le:
  assumes z: "\<bar>z\<bar> \<le> c" and c: "c = quantum c * of_int N"
  shows "\<bar>fl z\<bar> \<le> c"
proof -
  consider "z = 0" | "0 < z" | "z < 0" by linarith
  then show ?thesis
  proof cases
    case 1
    with z show ?thesis by (simp add: fl_def)
  next
    case 2
    with z have "z \<le> c" by simp
    with 2 have "fl z \<le> c" using c by (rule fl_le)
    moreover from 2 have "0 \<le> fl z" by (intro fl_nonneg) simp
    ultimately show ?thesis by simp
  next
    case 3
    with z have "0 < - z" "- z \<le> c" by simp_all
    then have "fl (- z) \<le> c" using c by (rule fl_le)
    moreover from 3 have "0 \<le> fl (- z)" by (intro fl_nonneg) simp
    ultimately show ?thesis by (simp add: fl_minus)
  qed
qed

lemma quantum_np_pi: "quantum np_pi = 1 / 2 ^ 51"
proof -
  have "quantum np_pi = 2 powi (1 - 52)"
    by (rule quantum_eqI) (simp_all add: np_pi_def)
  then show ?thesis by (simp add: power_int_minus_divide)
qed

lemma quantum_two_np_pi: "quantum (2 * np_pi) = 1 / 2 ^ 50"
proof -
  have "quantum (2 * np_pi) = 2 powi (2 - 52)"
    by (rule quantum_eqI) (simp_all add: np_pi_def)
  then show ?thesis by (simp add: power_int_minus_divide)
qed

lemma quantum_half_np_pi: "quantum (np_pi / 2) = 1 / 2 ^ 52"
proof -
  have "quantum (np_pi / 2) = 2 powi (0 - 52)"
    by (rule quantum_eqI) (simp_all add: np_pi_def)
  then show ?thesis by (simp add: power_int_minus_divide)
qed

lemma np_pi_grid: "np_pi = quantum np_pi * of_int 7074237752028440"
  by (simp add: quantum_np_pi) (simp add: np_pi_def)

lemma two_np_pi_grid: "2 * np_pi = quantum (2 * np_pi) * of_int 7074237752028440"
  by (simp add: quantum_two_np_pi) (simp add: np_pi_def)

lemma half_np_pi_grid: "np_pi / 2 = quantum (np_pi / 2) * of_int 7074237752028440"
  by (simp add: quantum_half_np_pi) (simp add: np_pi_def)

lemma fl_np_pi: "fl np_pi = np_pi"
  using np_pi_grid by (rule fl_exact)

lemma fl_two_np_pi: "fl (2 * np_pi) = 2 * np_pi"
  using two_np_pi_grid by (rule fl_exact)

lemma fl_half_np_pi: "fl (np_pi / 2) = np_pi / 2"
  using half_np_pi_grid by (rule fl_exact)

lemma np_pi_pos: "0 < np_pi"
  by (simp add: np_pi_def)

lemma c_fmod_small_pos: "0 \<le> a \<Longrightarrow> a < b \<Longrightarrow> c_fmod a b = a"
proof -
  assume a: "0 \<le> a" "a < b"
  then have "0 \<le> a / b" "a / b < 1" by simp_all
  then have "\<lfloor>a / b\<rfloor> = 0" by (simp add: floor_eq_iff)
  with \<open>0 \<le> a / b\<close> show ?thesis by (simp add: c_fmod_def)
qed

lemma c_fmod_small_neg: "- b < a \<Longrightarrow> a < 0 \<Longrightarrow> c_fmod a b = a"
proof -
  assume a: "- b < a" "a < 0"
  then have b: "0 < b" by simp
  with a have 1: "a / b < 0" by (simp add: divide_neg_pos)
  from a b have 2: "- 1 < a / b" by (simp add: pos_less_divide_eq)
  from 1 2 have "\<lceil>a / b\<rceil> = 0" by (intro ceiling_unique) simp_all
  with 1 show ?thesis by (simp add: c_fmod_def)
qed

lemma float_mod_small_pos: "0 < a \<Longrightarrow> a < b \<Longrightarrow> float_mod a b = a"
  by (simp add: float_mod_def c_fmod_small_pos)

lemma float_mod_small_neg: "- b < a \<Longrightarrow> a < 0 \<Longrightarrow> float_mod a b = fl (a + b)"
  by (simp add: float_mod_def c_fmod_small_neg)

lemma float_mod_self: "0 < b \<Longrightarrow> float_mod b b = 0"
  by (simp add: float_mod_def c_fmod_def)

lemma wrap_bounds:
  "- np_pi \<le> float_sub (float_mod (float_add e np_pi) (float_mul 2 np_pi)) np_pi \<and>
   float_sub (float_mod (float_add e np_pi) (float_mul 2 np_pi)) np_pi \<le> np_pi"
proof -
  let ?m = "float_mod (float_add e np_pi) (2 * np_pi)"
  have T: "0 < 2 * np_pi" using np_pi_pos by simp
  from float_mod_bounds [OF T two_np_pi_grid, of "float_add e np_pi"]
  have "0 \<le> ?m" "?m \<le> 2 * np_pi" by simp_all
  then have "\<bar>?m - np_pi\<bar> \<le> np_pi" by simp
  then have "\<bar>fl (?m - np_pi)\<bar> \<le> np_pi" using np_pi_grid by (rule fl_abs_le)
  then have "- np_pi \<le> fl (?m - np_pi) \<and> fl (?m - np_pi) \<le> np_pi" by linarith
  then show ?thesis by (simp only: float_sub_def float_mul_def fl_two_np_pi)
qed

lemma wrap_np_pi:
  "float_sub (float_mod (float_add np_pi np_pi) (float_mul 2 np_pi)) np_pi = - np_pi"
proof -
  have a: "float_add np_pi np_pi = 2 * np_pi"
    using fl_two_np_pi by (simp add: float_add_def)
  have m: "float_mod (2 * np_pi) (2 * np_pi) = 0"
    using np_pi_pos by (intro float_mod_self) simp
  have s: "fl (0 - np_pi) = - np_pi"
    using fl_minus [of np_pi] by (simp add: fl_np_pi)
  show ?thesis
    by (simp only: a m float_mul_def fl_two_np_pi float_sub_def s)
qed

lemma wrap_zero:
  "float_sub (float_mod (float_add 0 np_pi) (float_mul 2 np_pi)) np_pi = 0"
proof -
  have a: "float_add 0 np_pi = np_pi" by (simp add: float_add_def fl_np_pi)
  have m: "float_mod np_pi (2 * np_pi) = np_pi"
    using np_pi_pos by (intro float_mod_small_pos) simp_all
  have s: "fl (np_pi - np_pi) = 0" by (simp add: fl_def)
  show ?thesis
    by (simp only: a m float_mul_def fl_two_np_pi float_sub_def s)
qed

lemma wrap_half:
  "float_sub (float_mod (float_add (- (np_pi / 2)) np_pi) (float_mul 2 np_pi)) np_pi = - (np_pi / 2)"
proof -
  have a: "float_add (- (np_pi / 2)) np_pi = np_pi / 2"
    using fl_half_np_pi by (simp add: float_add_def)
  have m: "float_mod (np_pi / 2) (2 * np_pi) = np_pi / 2"
    using np_pi_pos by (intro float_mod_small_pos) simp_all
  have "fl (np_pi / 2 - np_pi) = fl (- (np_pi / 2))" by simp
  then have s: "fl (np_pi / 2 - np_pi) = - (np_pi / 2)"
    by (simp only: fl_minus fl_half_np_pi)
  show ?thesis
    by (simp only: a m float_mul_def fl_two_np_pi float_sub_def s)
qed

lemma float_mod_returns_divisor: "float_mod (- (1 / 2 ^ 70)) 3 = 3"
proof -
  have "quantum (- (1 / 2 ^ 70) + 3) = 2 powi (1 - 52)"
    by (rule quantum_eqI) simp_all
  then have q: "quantum (- (1 / 2 ^ 70) + 3) = 1 / 2 ^ 51"
    by (simp add: power_int_minus_divide)
  have f: "\<lfloor>(- (1 / 2 ^ 70) + 3) / (1 / 2 ^ 51) :: real\<rfloor> = 3 * 2 ^ 51 - 1"
    by (rule floor_unique) simp_all
  have r: "round_half_even ((- (1 / 2 ^ 70) + 3) / (1 / 2 ^ 51)) = 3 * 2 ^ 51"
    unfolding round_half_even_def Let_def f by simp
  have nz: "- (1 / 2 ^ 70) + (3::real) \<noteq> 0" by simp
  have "fl (- (1 / 2 ^ 70) + 3) = 3"
    unfolding fl_def q r using nz by simp
  moreover have "float_mod (- (1 / 2 ^ 70)) 3 = fl (- (1 / 2 ^ 70) + 3)"
    by (rule float_mod_small_neg) simp_all
  ultimately show ?thesis by simp
qed

lemma wrap_upper_end:
  "float_sub (float_mod (float_add (- np_pi - 1 / 2 ^ 51) np_pi) (float_mul 2 np_pi)) np_pi = np_pi"
proof -
  have "fl (- (1 / 2 ^ 51)) = - (1 / 2 ^ 51)"
  proof (rule fl_exact [where N = "- (2 ^ 52)"])
    have "quantum (- (1 / 2 ^ 51)) = 2 powi (- 51 - 52)"
      by (rule quantum_eqI) (simp_all add: power_int_minus_divide)
    then show "- (1 / 2 ^ 51) = quantum (- (1 / 2 ^ 51)) * real_of_int (- (2 ^ 52))"
      by (simp add: power_int_minus_divide)
  qed
  then have a: "float_add (- np_pi - 1 / 2 ^ 51) np_pi = - (1 / 2 ^ 51)"
    by (simp add: float_add_def)
  have "quantum (- (1 / 2 ^ 51) + 2 * np_pi) = 2 powi (2 - 52)"
    by (rule quantum_eqI) (simp_all add: np_pi_def)
  then have q: "quantum (- (1 / 2 ^ 51) + 2 * np_pi) = 1 / 2 ^ 50"
    by (simp add: power_int_minus_divide)
  have f: "\<lfloor>(- (1 / 2 ^ 51) + 2 * np_pi) / (1 / 2 ^ 50)\<rfloor> = 7074237752028439"
    by (rule floor_unique) (simp_all add: np_pi_def)
  have d: "(- (1 / 2 ^ 51) + 2 * np_pi) / (1 / 2 ^ 50) - of_int 7074237752028439 = 1 / 2"
    by (simp add: np_pi_def)
  have r: "round_half_even ((- (1 / 2 ^ 51) + 2 * np_pi) / (1 / 2 ^ 50)) = 7074237752028440"
    unfolding round_half_even_def Let_def f d by simp
  have nz: "- (1 / 2 ^ 51) + 2 * np_pi \<noteq> 0" by (simp add: np_pi_def)
  have m: "fl (- (1 / 2 ^ 51) + 2 * np_pi) = 2 * np_pi"
    unfolding fl_def q r using nz by (simp add: np_pi_def)
  have "float_mod (- (1 / 2 ^ 51)) (2 * np_pi) = fl (- (1 / 2 ^ 51) + 2 * np_pi)"
    by (rule float_mod_small_neg) (simp_all add: np_pi_def)
  with m have fm: "float_mod (- (1 / 2 ^ 51)) (2 * np_pi) = 2 * np_pi" by simp
  have s: "fl (2 * np_pi - np_pi) = np_pi" by (simp add: fl_np_pi)
  show ?thesis
    by (simp only: a float_mul_def fl_two_np_pi fm float_sub_def s)
qed

subsection \<open>The loop and the events\<close>

lemma run_control_loop_idle:
  "\<not> active s \<or> xyt_goal s = None \<Longrightarrow> run_control_loop G ctl n s = (s, [])"
  by (induction n) (auto simp: control_loop_body_def)

text \<open>
  Under the loop's guard a goal is set, so the error computation returns and the
  iteration publishes exactly one command, built from the control law's answer.
\<close>

lemma control_loop_body_tracking:
  "active s \<Longrightarrow> xyt_goal s = Some g \<Longrightarrow>
   \<exists>e. compute_error_pose G s = Some e \<and>
       snd (control_loop_body G ctl s)
         = [set_velocity (fst (fst (ctl (control s) e))) (snd (fst (ctl (control s) e)))]"
  by (auto simp: control_loop_body_def compute_error_pose_def Let_def split: prod.splits)

lemma dispatch_odom_only: "odom_only (fst (dispatch L G ctl e s)) = odom_only s"
  by (cases e)
     (simp_all add: dispatch_def pose_update_callback_def odom_update_callback_def
        goal_update_callback_def enable_service_def disable_service_def
        set_yaw_tracking_service_def control_loop_body_def Let_def
        split: option.splits prod.splits)

lemma run_events_odom_only: "odom_only (fst (run_events L G ctl es s)) = odom_only s"
proof (induction es arbitrary: s)
  case Nil
  show ?case by simp
next
  case (Cons e es)
  obtain s' out where d: "dispatch L G ctl e s = (s', out)"
    by (cases "dispatch L G ctl e s")
  have "odom_only s' = odom_only s"
    using dispatch_odom_only [of L G ctl e s] d by simp
  with Cons [of s'] d show ?case
    by (cases "run_events L G ctl es s'") simp
qed

section \<open>The claims\<close>

subsection \<open>Heading error\<close>

text \<open>
  In the interval of C1, \<open>pi\<close> is the program's constant \<open>np.pi\<close>. C1, as stated,
  fails: with yaw tracking on, a goal heading of \<open>np.pi\<close> and a feedback heading of 0,
  the raw heading error is \<open>np.pi\<close>, \<open>(np.pi + np.pi) % (2 * np.pi)\<close> is 0 and the
  heading error returned is \<open>- np.pi\<close>, which is outside \<open>(- pi, pi]\<close>.
\<close>

theorem heading_wrap_counterexample:
  "track_yaw half_turn_state \<and>
   compute_error_pose xyt_global_to_base half_turn_state = Some (pose 0 0 (- np_pi)) \<and>
   \<not> (- np_pi < xyt_t (pose 0 0 (- np_pi)) \<and> xyt_t (pose 0 0 (- np_pi)) \<le> np_pi)"
  by (simp add: half_turn_state_def compute_error_pose_def init_def xyt_global_to_base_def
      pose_def zeros3_def wrap_np_pi)

text \<open>
  The upper end is attained as well: with a goal heading of \<open>- np.pi\<close> and a feedback
  heading of \<open>2 ^ - 51\<close>, the sum with \<open>np.pi\<close> is \<open>- 2 ^ - 51\<close>, the remainder rounds
  to \<open>2 * np.pi\<close> itself, and the heading error returned is \<open>np.pi\<close>.
\<close>

lemma heading_wrap_upper_end:
  "track_yaw upper_end_state \<and>
   compute_error_pose xyt_global_to_base upper_end_state = Some (pose 0 0 np_pi)"
  using wrap_upper_end
  by (simp add: upper_end_state_def compute_error_pose_def init_def xyt_global_to_base_def
      pose_def)

text \<open>
  C1, amended: when yaw tracking is enabled, the heading error that
  \<open>_compute_error_pose\<close> returns lies in the closed interval \<open>[- pi, pi]\<close>, \<open>pi\<close> being
  \<open>np.pi\<close>, whatever the goal and feedback poses are and whatever the base-frame helper
  returns.
\<close>

theorem heading_wrap:
  "track_yaw s \<Longrightarrow> compute_error_pose G s = Some e \<Longrightarrow>
   - np_pi \<le> xyt_t e \<and> xyt_t e \<le> np_pi"
  using wrap_bounds
  by (auto simp: compute_error_pose_def Let_def split: option.splits)

theorem heading_wrap_witness:
  "track_yaw quarter_turn_state \<and>
   compute_error_pose xyt_global_to_base quarter_turn_state
     = Some (pose 0 0 (- (np_pi / 2))) \<and>
   - np_pi \<le> xyt_t (pose 0 0 (- (np_pi / 2))) \<and>
   xyt_t (pose 0 0 (- (np_pi / 2))) \<le> np_pi"
proof -
  have t: "track_yaw quarter_turn_state"
    by (simp add: quarter_turn_state_def init_def)
  have e: "compute_error_pose xyt_global_to_base quarter_turn_state
             = Some (pose 0 0 (- (np_pi / 2)))"
    by (simp add: quarter_turn_state_def compute_error_pose_def init_def
        xyt_global_to_base_def pose_def zeros3_def wrap_half)
  from heading_wrap [OF t e] t e show ?thesis by simp
qed

text \<open>
  C3: whenever \<open>track_yaw\<close> is false and a goal is set, the error computation returns
  an error vector whose heading component is exactly 0, for every goal and feedback
  pose and whatever the base-frame helper returns.
\<close>

theorem yaw_gate:
  "\<not> track_yaw s \<Longrightarrow> xyt_goal s = Some g \<Longrightarrow>
   map_option xyt_t (compute_error_pose G s) = Some 0"
  by (simp add: compute_error_pose_def)

theorem yaw_gate_witness:
  "\<not> track_yaw yaw_off_state \<and> xyt_goal yaw_off_state = Some (pose 0 0 3) \<and>
   map_option xyt_t (compute_error_pose xyt_global_to_base yaw_off_state) = Some 0"
proof -
  have a: "\<not> track_yaw yaw_off_state" by (simp add: yaw_off_state_def)
  have b: "xyt_goal yaw_off_state = Some (pose 0 0 3)" by (simp add: yaw_off_state_def)
  from yaw_gate [OF a b] a b show ?thesis by simp
qed

subsection \<open>The control loop\<close>

text \<open>
  C2: on a loop iteration at which \<open>active\<close> is false or no goal is set, nothing is
  published and the controller, the control law's state included, is left as it was.
  The iteration's result is the same for every base-frame helper and every control law,
  so neither is consulted. Any number of such iterations in a row publishes nothing.
\<close>

theorem idle_emits_nothing:
  "\<not> active s \<or> xyt_goal s = None \<Longrightarrow>
   control_loop_body G ctl s = (s, []) \<and>
   control_loop_body G ctl s = control_loop_body G' ctl' s \<and>
   control (fst (control_loop_body G ctl s)) = control s \<and>
   dispatch L G ctl LoopIteration s = (s, []) \<and>
   run_control_loop G ctl n s = (s, [])"
  using run_control_loop_idle [of s G ctl n]
  by (auto simp: control_loop_body_def dispatch_def)

theorem idle_emits_nothing_witness:
  "xyt_goal idle_state = None \<and>
   \<not> active goal_only_state \<and>
   control_loop_body xyt_global_to_base p_control idle_state = (idle_state, []) \<and>
   run_control_loop xyt_global_to_base p_control 5 goal_only_state = (goal_only_state, [])"
proof -
  have a: "xyt_goal idle_state = None"
    by (simp add: idle_state_def init_def)
  have b: "\<not> active goal_only_state"
    by (simp add: goal_only_state_def init_def)
  from idle_emits_nothing [OF disjI2 [OF a], of xyt_global_to_base p_control]
       idle_emits_nothing [OF disjI1 [OF b], of xyt_global_to_base p_control _ _ _ 5] a b
  show ?thesis by blast
qed

text \<open>
  C4: with a goal set, the error is computed from the goal and the odometry estimate
  when the controller was constructed with odometry-only feedback, and from the goal
  and the localization estimate otherwise; the constructor stores the choice, and no
  sequence of handler calls and loop iterations changes it.
\<close>

theorem feedback_source:
  "xyt_goal s = Some g \<Longrightarrow>
   compute_error_pose G s =
     Some ((G g (if odom_only s then xyt_loc_odom s else xyt_loc s))
       \<lparr>xyt_t :=
          (if track_yaw s
           then float_sub
                  (float_mod
                     (float_add
                        (xyt_t (G g (if odom_only s then xyt_loc_odom s else xyt_loc s)))
                        np_pi)
                     (float_mul 2 np_pi))
                  np_pi
           else 0)\<rparr>) \<and>
   odom_only (init new_control h b) = b \<and>
   odom_only (fst (run_events L G ctl es s)) = odom_only s"
  using run_events_odom_only [of L G ctl es s]
  by (simp add: compute_error_pose_def init_def Let_def)

theorem feedback_source_witness:
  "xyt_goal tracking_state = Some (pose 1 0 0) \<and>
   compute_error_pose xyt_global_to_base tracking_state = Some (pose 1 0 0) \<and>
   odom_only (fst (run_events planar_lib xyt_global_to_base p_control sample_events
     tracking_state)) \<and>
   xyt_goal loc_feedback_state = Some (pose 1 0 0) \<and>
   compute_error_pose xyt_global_to_base loc_feedback_state = Some (pose 0 0 0)"
proof -
  have g: "xyt_goal tracking_state = Some (pose 1 0 0)"
    by (simp add: tracking_state_def)
  have g': "xyt_goal loc_feedback_state = Some (pose 1 0 0)"
    by (simp add: loc_feedback_state_def)
  have o: "odom_only tracking_state" by (simp add: tracking_state_def init_def)
  from feedback_source [OF g, of xyt_global_to_base new_p_control 20 True planar_lib
      p_control sample_events] g o
  have 1: "compute_error_pose xyt_global_to_base tracking_state = Some (pose 1 0 0) \<and>
    odom_only (fst (run_events planar_lib xyt_global_to_base p_control sample_events
      tracking_state))"
    by (simp add: tracking_state_def init_def xyt_global_to_base_def pose_def zeros3_def
        wrap_zero)
  from feedback_source [OF g', of xyt_global_to_base new_p_control 20 True planar_lib
      p_control sample_events] g'
  have 2: "compute_error_pose xyt_global_to_base loc_feedback_state = Some (pose 0 0 0)"
    by (simp add: loc_feedback_state_def init_def xyt_global_to_base_def pose_def
        wrap_zero)
  from 1 2 g g' show ?thesis by simp
qed

subsection \<open>Command handlers\<close>

text \<open>
  C5: \<open>disable\<close> sets \<open>active\<close> to false and replies with success; the stored goal,
  both pose estimates, \<open>track_yaw\<close>, the feedback selection, the rate and the control
  law's state are what they were. A second call changes nothing more, and a call on a
  controller that is not active leaves the state as it is.
\<close>

theorem disable_frame:
  "fst (disable_service request s) = s\<lparr>active := False\<rparr> \<and>
   \<not> active (fst (disable_service request s)) \<and>
   success (snd (disable_service request s)) \<and>
   message (snd (disable_service request s)) = ''Goto controller is now STOPPED'' \<and>
   xyt_goal (fst (disable_service request s)) = xyt_goal s \<and>
   xyt_loc (fst (disable_service request s)) = xyt_loc s \<and>
   xyt_loc_odom (fst (disable_service request s)) = xyt_loc_odom s \<and>
   track_yaw (fst (disable_service request s)) = track_yaw s \<and>
   odom_only (fst (disable_service request s)) = odom_only s \<and>
   hz (fst (disable_service request s)) = hz s \<and>
   control (fst (disable_service request s)) = control s \<and>
   disable_service request' (fst (disable_service request s)) = disable_service request s \<and>
   (\<not> active s \<longrightarrow> fst (disable_service request s) = s)"
  by (simp add: disable_service_def)

theorem disable_frame_witness:
  "\<not> active goal_only_state \<and>
   fst (disable_service () goal_only_state) = goal_only_state \<and>
   xyt_goal (fst (disable_service () tracking_state)) = Some (pose 1 0 0) \<and>
   \<not> active (fst (disable_service () tracking_state))"
proof -
  have a: "\<not> active goal_only_state" by (simp add: goal_only_state_def init_def)
  have g: "xyt_goal tracking_state = Some (pose 1 0 0)" by (simp add: tracking_state_def)
  from disable_frame [of "()" goal_only_state "()"]
       disable_frame [of "()" tracking_state "()"] a g
  show ?thesis by simp
qed

text \<open>
  C6: \<open>enable\<close> sets \<open>active\<close> to true and replies with success and a message,
  whatever \<open>active\<close> was; a second call gives the same state and the same reply as the
  first, so both succeed and \<open>active\<close> stays true.
\<close>

theorem enable_idempotent:
  "fst (enable_service request s) = s\<lparr>active := True\<rparr> \<and>
   active (fst (enable_service request s)) \<and>
   success (snd (enable_service request s)) \<and>
   message (snd (enable_service request s)) = ''Goto controller is now RUNNING'' \<and>
   enable_service request' (fst (enable_service request s)) = enable_service request s \<and>
   success (snd (enable_service request' (fst (enable_service request s)))) \<and>
   active (fst (enable_service request' (fst (enable_service request s))))"
  by (simp add: enable_service_def)

text \<open>
  C7: for every request and every state, the replies of \<open>enable\<close>, \<open>disable\<close> and
  \<open>set_yaw_tracking\<close> have \<open>success\<close> true; \<open>set_yaw_tracking\<close> stores exactly the
  request's flag in \<open>track_yaw\<close>, changes nothing else, and its message names the new
  state (ON or OFF).
\<close>

theorem handlers_always_succeed:
  "success (snd (enable_service request s)) \<and>
   success (snd (disable_service request s)) \<and>
   success (snd (set_yaw_tracking_service req s)) \<and>
   track_yaw (fst (set_yaw_tracking_service req s)) = data req \<and>
   fst (set_yaw_tracking_service req s) = s\<lparr>track_yaw := data req\<rparr> \<and>
   message (snd (set_yaw_tracking_service req s)) =
     (if data req then ''Yaw tracking is now ON'' else ''Yaw tracking is now OFF'')"
  by (simp add: enable_service_def disable_service_def set_yaw_tracking_service_def)

text \<open>
  C8: \<open>set_yaw_tracking\<close> leaves \<open>active\<close> as it was, and \<open>enable\<close> and \<open>disable\<close>
  leave \<open>track_yaw\<close> as it was.
\<close>

theorem mode_independence:
  "active (fst (set_yaw_tracking_service req s)) = active s \<and>
   track_yaw (fst (enable_service request s)) = track_yaw s \<and>
   track_yaw (fst (disable_service request s)) = track_yaw s"
  by (simp add: enable_service_def disable_service_def set_yaw_tracking_service_def)

subsection \<open>Goal updates\<close>

text \<open>
  C10: the goal callback stores the planar conversion of the received pose itself. The
  stored goal is the same from any two controller states (so it does not depend on the
  feedback selection, on \<open>active\<close> or on either pose estimate), and the callback,
  visualization included, changes no field of the controller other than the goal.
\<close>

theorem goal_update_stores_conversion:
  "fst (goal_update_callback L msg s)
     = s\<lparr>xyt_goal := Some (sophus2xyt L (se3_of_msg L msg))\<rparr> \<and>
   xyt_goal (fst (goal_update_callback L msg s)) = Some (sophus2xyt L (se3_of_msg L msg)) \<and>
   xyt_goal (fst (goal_update_callback L msg s'))
     = xyt_goal (fst (goal_update_callback L msg s)) \<and>
   fst (dispatch L G ctl (GoalMsg msg) s) = fst (goal_update_callback L msg s) \<and>
   xyt_loc (fst (goal_update_callback L msg s)) = xyt_loc s \<and>
   xyt_loc_odom (fst (goal_update_callback L msg s)) = xyt_loc_odom s \<and>
   active (fst (goal_update_callback L msg s)) = active s \<and>
   track_yaw (fst (goal_update_callback L msg s)) = track_yaw s \<and>
   odom_only (fst (goal_update_callback L msg s)) = odom_only s \<and>
   hz (fst (goal_update_callback L msg s)) = hz s \<and>
   control (fst (goal_update_callback L msg s)) = control s"
  by (simp add: goal_update_callback_def dispatch_def Let_def)

end
